theory Spec2Isabelle
  imports Complex_Main "HOL-Library.Char_ord" "HOL-Library.List_Lexorder"
begin

section \<open>Entity model (types.ts)\<close>

text \<open>
  The interfaces of the entity model become records. A field marked optional in the
  source (\<^verbatim>\<open>caption?\<close>, \<^verbatim>\<open>edited?\<close>, \<^verbatim>\<open>updatedAt?\<close>, ...) has an option type, with
  \<open>None\<close> for \<^verbatim>\<open>undefined\<close>. Timestamps are the integers that \<^verbatim>\<open>Date.now()\<close> returns.
  Field selectors are global constants, so the fields that several interfaces share
  (\<^verbatim>\<open>id\<close>, \<^verbatim>\<open>createdAt\<close>, \<^verbatim>\<open>activityExecuted\<close>) carry the name of their interface as a
  prefix; every other field keeps its name.
\<close>

record ReportPhoto =
  photo_id :: string
  base64 :: string
  caption :: "string option"
  edited :: "bool option"

record ReportTemplate =
  template_id :: string
  title :: string
  omDescription :: string
  template_activityExecuted :: string
  template_createdAt :: int

datatype ActivityType = Preventiva | Corretiva

datatype ReportStatus = draft | completed

record ReportData =
  report_id :: string
  templateId :: string
  date :: string
  equipment :: string
  omNumber :: string
  activityType :: ActivityType
  activityExecuted :: "string option"
  startTime :: string
  endTime :: string
  iamoDeviation :: bool
  iamoDeviationDetails :: string
  omFinished :: bool
  pendings :: bool
  pendingDetails :: "string option"
  team :: string
  workCenter :: string
  technicians :: string
  photos :: "ReportPhoto list"
  status :: "ReportStatus option"
  createdAt :: int
  updatedAt :: "int option"

record User =
  username :: string
  password :: string
  user_createdAt :: int

section \<open>Local store (services/db.ts)\<close>

subsection \<open>The storage engine\<close>

text \<open>
  The database \<^verbatim>\<open>SerraSulReportsDB\<close> holds three object stores, each with an in-line key
  (\<^verbatim>\<open>keyPath: 'id'\<close> for templates and reports, \<^verbatim>\<open>keyPath: 'username'\<close> for users).
  An object store is the list of its records; the key of a record is read from the
  record by the key path, \<open>store_get\<close> is the engine's \<^verbatim>\<open>get\<close>, \<open>store_put\<close> its \<^verbatim>\<open>put\<close>
  (the record replaces every record under the same key), \<open>store_delete\<close> its \<^verbatim>\<open>delete\<close>
  and \<open>store_getAll\<close> its \<^verbatim>\<open>getAll\<close>, which returns the records in ascending key order.
  \<open>openDB\<close> creates the three stores when they are missing, so a database always has the
  three of them; the fresh database has three empty stores.
\<close>

record database =
  templates :: "ReportTemplate list"
  reports :: "ReportData list"
  users :: "User list"

definition fresh_database :: database where
  "fresh_database = \<lparr>templates = [], reports = [], users = []\<rparr>"

definition store_get :: "('v \<Rightarrow> string) \<Rightarrow> 'v list \<Rightarrow> string \<Rightarrow> 'v option" where
  "store_get keyPath store k = find (\<lambda>v. keyPath v = k) store"

definition store_delete :: "('v \<Rightarrow> string) \<Rightarrow> 'v list \<Rightarrow> string \<Rightarrow> 'v list" where
  "store_delete keyPath store k = filter (\<lambda>v. keyPath v \<noteq> k) store"

definition store_put :: "('v \<Rightarrow> string) \<Rightarrow> 'v list \<Rightarrow> 'v \<Rightarrow> 'v list" where
  "store_put keyPath store v = store_delete keyPath store (keyPath v) @ [v]"

definition store_getAll :: "('v \<Rightarrow> string) \<Rightarrow> 'v list \<Rightarrow> 'v list" where
  "store_getAll keyPath store = sort_key keyPath store"

text \<open>
  What the code cannot decide is taken from the engine: whether \<^verbatim>\<open>indexedDB.open\<close> fires
  its error event, and whether a request ends with an error event (quota exceeded, an
  I/O error of the device) instead of a success event.
\<close>

datatype store_name = TEMPLATE_STORE | REPORT_STORE | USER_STORE

datatype idb_request =
  Get store_name string
  | GetAll store_name
  | Put store_name string
  | Add store_name string
  | Delete store_name string

record engine =
  open_fails :: bool
  request_fails :: "idb_request \<Rightarrow> bool"

definition healthy_engine :: engine where
  "healthy_engine = \<lparr>open_fails = False, request_fails = (\<lambda>r. False)\<rparr>"

text \<open>
  The values a promise of the store is rejected with: the engine's own error object
  (\<^verbatim>\<open>request.error\<close>, \<^verbatim>\<open>tx.error\<close>, the error of the open request), and the two errors the
  store creates itself: the one of \<open>createUser\<close> for a user name that is taken, and
  \<^verbatim>\<open>Error("Erro ao importar alguns itens.")\<close> of \<open>importBackup\<close>. The image pipeline below adds \<open>TypeError\<close>, the exception of reading
  a property of \<^verbatim>\<open>undefined\<close>, and the two errors of the upload handler,
  \<^verbatim>\<open>Error('Falha na leitura do arquivo')\<close> and \<^verbatim>\<open>Error('Falha ao carregar imagem')\<close>.
\<close>

datatype js_error =
  EngineError | UserExists | ImportItemsFailed | TypeError | FileReadFailed | ImageLoadFailed

text \<open>A promise is pending until the first call of \<^verbatim>\<open>resolve\<close> or \<^verbatim>\<open>reject\<close>; later calls
  have no effect.\<close>

datatype 'a promise = Pending | Resolved 'a | Rejected js_error

definition settle :: "'a promise \<Rightarrow> 'a promise \<Rightarrow> 'a promise" where
  "settle p outcome = (case p of Pending \<Rightarrow> outcome | _ \<Rightarrow> p)"

subsection \<open>Operations with one request\<close>

text \<open>
  Each of these opens the database, starts a transaction on one store and issues one
  request; \<^verbatim>\<open>onsuccess\<close> resolves the promise and \<^verbatim>\<open>onerror\<close> rejects it with
  \<^verbatim>\<open>request.error\<close>. A request that failed leaves the store as it was. Every operation
  returns its promise together with the database after it.
\<close>

definition validateUser :: "engine \<Rightarrow> database \<Rightarrow> string \<Rightarrow> string \<Rightarrow> bool promise" where
  "validateUser e db uname pw =
     (if uname = ''admin'' \<and> pw = ''admin'' then Resolved True
      else if open_fails e then Rejected EngineError
      else if request_fails e (Get USER_STORE uname) then Rejected EngineError
      else (case store_get username (users db) uname of
              Some user \<Rightarrow> if password user = pw then Resolved True else Resolved False
            | None \<Rightarrow> Resolved False))"

definition createUser :: "engine \<Rightarrow> database \<Rightarrow> User \<Rightarrow> unit promise \<times> database" where
  "createUser e db user =
     (if open_fails e then (Rejected EngineError, db)
      else if request_fails e (Get USER_STORE (username user)) then (Rejected EngineError, db)
      else (case store_get username (users db) (username user) of
              Some existing \<Rightarrow> (Rejected UserExists, db)
            | None \<Rightarrow>
                if request_fails e (Add USER_STORE (username user))
                then (Rejected EngineError, db)
                else (Resolved (), db\<lparr>users := users db @ [user]\<rparr>)))"

definition saveTemplate :: "engine \<Rightarrow> database \<Rightarrow> ReportTemplate \<Rightarrow> unit promise \<times> database" where
  "saveTemplate e db template =
     (if open_fails e then (Rejected EngineError, db)
      else if request_fails e (Put TEMPLATE_STORE (template_id template))
      then (Rejected EngineError, db)
      else (Resolved (), db\<lparr>templates := store_put template_id (templates db) template\<rparr>))"

definition getTemplates :: "engine \<Rightarrow> database \<Rightarrow> ReportTemplate list promise" where
  "getTemplates e db =
     (if open_fails e then Rejected EngineError
      else if request_fails e (GetAll TEMPLATE_STORE) then Rejected EngineError
      else Resolved (store_getAll template_id (templates db)))"

definition saveReport :: "engine \<Rightarrow> database \<Rightarrow> ReportData \<Rightarrow> unit promise \<times> database" where
  "saveReport e db report =
     (if open_fails e then (Rejected EngineError, db)
      else if request_fails e (Put REPORT_STORE (report_id report))
      then (Rejected EngineError, db)
      else (Resolved (), db\<lparr>reports := store_put report_id (reports db) report\<rparr>))"

definition getReport :: "engine \<Rightarrow> database \<Rightarrow> string \<Rightarrow> ReportData option promise" where
  "getReport e db k =
     (if open_fails e then Rejected EngineError
      else if request_fails e (Get REPORT_STORE k) then Rejected EngineError
      else Resolved (store_get report_id (reports db) k))"

definition getAllReports :: "engine \<Rightarrow> database \<Rightarrow> ReportData list promise" where
  "getAllReports e db =
     (if open_fails e then Rejected EngineError
      else if request_fails e (GetAll REPORT_STORE) then Rejected EngineError
      else Resolved (store_getAll report_id (reports db)))"

definition deleteTemplate :: "engine \<Rightarrow> database \<Rightarrow> string \<Rightarrow> unit promise \<times> database" where
  "deleteTemplate e db k =
     (if open_fails e then (Rejected EngineError, db)
      else if request_fails e (Delete TEMPLATE_STORE k) then (Rejected EngineError, db)
      else (Resolved (), db\<lparr>templates := store_delete template_id (templates db) k\<rparr>))"

definition deleteReport :: "engine \<Rightarrow> database \<Rightarrow> string \<Rightarrow> unit promise \<times> database" where
  "deleteReport e db k =
     (if open_fails e then (Rejected EngineError, db)
      else if request_fails e (Delete REPORT_STORE k) then (Rejected EngineError, db)
      else (Resolved (), db\<lparr>reports := store_delete report_id (reports db) k\<rparr>))"


subsection \<open>importBackup: one transaction over two stores\<close>

text \<open>
  \<open>importBackup\<close> opens one read-write transaction on the template store and the report
  store, issues a \<^verbatim>\<open>put\<close> for every template and then for every report, and only then
  installs \<^verbatim>\<open>tx.oncomplete\<close> and \<^verbatim>\<open>tx.onerror\<close>; the engine delivers its events after
  that. The identifiers are strings, so no \<^verbatim>\<open>put\<close> throws for an invalid key.

  The engine executes the requests in the order they were issued, on the transaction's
  own view of the stores (\<open>working\<close>). The handlers of the source are:
  \<^item> \<^verbatim>\<open>req.onerror\<close>: sets \<^verbatim>\<open>errorOccurred\<close>;
  \<^item> \<^verbatim>\<open>tx.onerror\<close>: rejects the promise with \<^verbatim>\<open>tx.error\<close>;
  \<^item> \<^verbatim>\<open>tx.oncomplete\<close>: rejects with \<^verbatim>\<open>Error("Erro ao importar alguns itens.")\<close> when
    \<^verbatim>\<open>errorOccurred\<close> is set and resolves otherwise.

  The error event of a request bubbles to its transaction, and an error event whose
  default action is not prevented aborts the transaction (Indexed Database API, "fire an
  error event"). No handler of the source calls \<^verbatim>\<open>preventDefault\<close>. So a failed request
  runs \<^verbatim>\<open>req.onerror\<close>, then \<^verbatim>\<open>tx.onerror\<close>, and then the transaction is aborted: every
  request still pending ends with an error event of its own, the writes of the
  transaction are undone, and \<^verbatim>\<open>complete\<close> is never fired. A transaction in which no
  request failed commits its view and fires \<^verbatim>\<open>complete\<close>.
\<close>

record backup_data =
  backup_reports :: "ReportData list"
  backup_templates :: "ReportTemplate list"

datatype import_item = TemplateItem ReportTemplate | ReportItem ReportData

fun item_request :: "import_item \<Rightarrow> idb_request" where
  "item_request (TemplateItem t) = Put TEMPLATE_STORE (template_id t)"
| "item_request (ReportItem r) = Put REPORT_STORE (report_id r)"

fun put_item :: "database \<Rightarrow> import_item \<Rightarrow> database" where
  "put_item db (TemplateItem t) = db\<lparr>templates := store_put template_id (templates db) t\<rparr>"
| "put_item db (ReportItem r) = db\<lparr>reports := store_put report_id (reports db) r\<rparr>"

record import_tx =
  errorOccurred :: bool
  import_promise :: "unit promise"
  working :: database
  aborted :: bool

text \<open>The three handlers of the source.\<close>

definition req_onerror :: "import_tx \<Rightarrow> import_tx" where
  "req_onerror tx = tx\<lparr>errorOccurred := True\<rparr>"

definition tx_onerror :: "import_tx \<Rightarrow> import_tx" where
  "tx_onerror tx = tx\<lparr>import_promise := settle (import_promise tx) (Rejected EngineError)\<rparr>"

definition tx_oncomplete :: "import_tx \<Rightarrow> import_tx" where
  "tx_oncomplete tx =
     tx\<lparr>import_promise :=
          settle (import_promise tx)
            (if errorOccurred tx then Rejected ImportItemsFailed else Resolved ())\<rparr>"

text \<open>
  The error event of a request: the handler of the request runs, the event bubbles to
  the handler of the transaction, and since neither of them prevents the default action
  the engine aborts the transaction.
\<close>

definition fire_error_event :: "import_tx \<Rightarrow> import_tx" where
  "fire_error_event tx = (tx_onerror (req_onerror tx))\<lparr>aborted := True\<rparr>"

text \<open>
  One request of the import, in its turn: it ends with an error event when the
  transaction is already aborted or when the engine fails it, and writes its record into
  the transaction's view otherwise (the source installs no \<^verbatim>\<open>onsuccess\<close> handler).
\<close>

definition request_event :: "engine \<Rightarrow> import_tx \<Rightarrow> import_item \<Rightarrow> import_tx" where
  "request_event e tx item =
     (if aborted tx \<or> request_fails e (item_request item) then fire_error_event tx
      else tx\<lparr>working := put_item (working tx) item\<rparr>)"

definition import_items :: "backup_data \<Rightarrow> import_item list" where
  "import_items data = map TemplateItem (backup_templates data) @ map ReportItem (backup_reports data)"

text \<open>
  An aborted transaction leaves the database as it was and fires no \<^verbatim>\<open>complete\<close> event;
  otherwise the view of the transaction is committed and \<^verbatim>\<open>tx.oncomplete\<close> runs.
\<close>

definition importBackup :: "engine \<Rightarrow> database \<Rightarrow> backup_data \<Rightarrow> unit promise \<times> database" where
  "importBackup e db data =
     (if open_fails e then (Rejected EngineError, db)
      else
        let tx = foldl (request_event e)
                   \<lparr>errorOccurred = False, import_promise = Pending, working = db, aborted = False\<rparr>
                   (import_items data)
        in if aborted tx then (import_promise tx, db)
           else (import_promise (tx_oncomplete tx), working tx))"

section \<open>Image pipeline\<close>

text \<open>
  \<^verbatim>\<open>PHOTO_SETTINGS\<close> is an object literal with the three keys \<^verbatim>\<open>high\<close>, \<^verbatim>\<open>medium\<close> and
  \<^verbatim>\<open>low\<close>; the pipeline reads \<^verbatim>\<open>maxWidth\<close> and \<^verbatim>\<open>quality\<close> of an entry (\<^verbatim>\<open>label\<close> and
  \<^verbatim>\<open>desc\<close> are shown on the settings screen only). The type \<^verbatim>\<open>PhotoQuality\<close> exists at
  compile time only: at run time the quality mode is the string that local storage
  holds, and indexing the object with it gives
  \<^item> the entry, for one of the three keys;
  \<^item> a member inherited from \<^verbatim>\<open>Object.prototype\<close>, for one of its names: a value on
    which \<^verbatim>\<open>maxWidth\<close> and \<^verbatim>\<open>quality\<close> are \<^verbatim>\<open>undefined\<close>;
  \<^item> \<^verbatim>\<open>undefined\<close>, for any other string: reading \<^verbatim>\<open>maxWidth\<close> of it throws.
\<close>

record photo_settings =
  maxWidth :: real
  quality :: real

datatype settings_value = Undefined | Inherited | Entry photo_settings

definition OBJECT_PROTOTYPE_NAMES :: "string list" where
  "OBJECT_PROTOTYPE_NAMES =
     [''constructor'', ''hasOwnProperty'', ''isPrototypeOf'', ''propertyIsEnumerable'',
      ''toLocaleString'', ''toString'', ''valueOf'', ''__proto__'', ''__defineGetter__'',
      ''__defineSetter__'', ''__lookupGetter__'', ''__lookupSetter__'']"

definition PHOTO_SETTINGS :: "string \<Rightarrow> settings_value" where
  "PHOTO_SETTINGS key =
     (if key = ''high'' then Entry \<lparr>maxWidth = 1600, quality = 8 / 10\<rparr>
      else if key = ''medium'' then Entry \<lparr>maxWidth = 1024, quality = 7 / 10\<rparr>
      else if key = ''low'' then Entry \<lparr>maxWidth = 800, quality = 6 / 10\<rparr>
      else if key \<in> set OBJECT_PROTOTYPE_NAMES then Inherited
      else Undefined)"

text \<open>\<^verbatim>\<open>settings.maxWidth\<close> and \<^verbatim>\<open>settings.quality\<close> on a value that is not \<^verbatim>\<open>undefined\<close>; \<open>None\<close>
  is the property value \<^verbatim>\<open>undefined\<close>.\<close>

fun settings_maxWidth :: "settings_value \<Rightarrow> real option" where
  "settings_maxWidth (Entry st) = Some (maxWidth st)"
| "settings_maxWidth other = None"

fun settings_quality :: "settings_value \<Rightarrow> real option" where
  "settings_quality (Entry st) = Some (quality st)"
| "settings_quality other = None"

text \<open>
  \<open>getPhotoQuality\<close> takes the result of \<^verbatim>\<open>localStorage.getItem('photoQuality')\<close>:
  \<open>None\<close> for \<^verbatim>\<open>null\<close> (no such item). The operator \<^verbatim>\<open>||\<close> replaces \<^verbatim>\<open>null\<close> and the
  empty string, the two falsy results, by \<^verbatim>\<open>'medium'\<close>.
\<close>

definition getPhotoQuality :: "string option \<Rightarrow> string" where
  "getPhotoQuality item =
     (case item of None \<Rightarrow> ''medium'' | Some v \<Rightarrow> if v = [] then ''medium'' else v)"

text \<open>
  A source is a video element or an image element, with its intrinsic size (unsigned
  integers in the DOM) and its picture. A canvas has its size and the drawing commands
  executed on it.
\<close>

datatype image_source =
  HTMLVideoElement nat nat string
  | HTMLImageElement nat nat string

fun source_width :: "image_source \<Rightarrow> nat" where
  "source_width (HTMLVideoElement videoWidth videoHeight frame) = videoWidth"
| "source_width (HTMLImageElement naturalWidth naturalHeight picture) = naturalWidth"

fun source_height :: "image_source \<Rightarrow> nat" where
  "source_height (HTMLVideoElement videoWidth videoHeight frame) = videoHeight"
| "source_height (HTMLImageElement naturalWidth naturalHeight picture) = naturalHeight"

datatype draw_op =
  FillRect string int int int int
  | DrawImage image_source int int int int

record canvas =
  canvas_width :: int
  canvas_height :: int
  drawn :: "draw_op list"

text \<open>
  The browser around the pipeline: the stored quality mode, whether \<^verbatim>\<open>getContext('2d')\<close>
  returns a context, and the JPEG encoder \<^verbatim>\<open>canvas.toDataURL('image/jpeg', q)\<close>, which
  uses its default quality when \<^verbatim>\<open>q\<close> is \<^verbatim>\<open>undefined\<close>.
\<close>

record browser =
  photoQuality_item :: "string option"
  context2d :: bool
  toDataURL :: "canvas \<Rightarrow> real option \<Rightarrow> string"

text \<open>
  JavaScript numbers are IEEE 754 binary64 values. The model keeps them as the real
  numbers they denote and rounds the result of every division and product to the
  nearest double, ties to even (\<open>fl\<close>): a positive \<open>x\<close> with \<open>2 ^ e \<le> x < 2 ^ (e + 1)\<close> is
  rounded to a multiple of \<open>2 ^ (e - 52)\<close>. Overflow and subnormal numbers do not occur
  here: the operands are pixel sizes and the limits of the settings.
\<close>

function exponent_up :: "real \<Rightarrow> int" where
  "exponent_up x = (if 2 \<le> x then exponent_up (x / 2) + 1 else 0)"
  by pat_completeness auto
termination
proof (relation "measure (\<lambda>x. nat \<lfloor>x\<rfloor>)")
  show "wf (measure (\<lambda>x::real. nat \<lfloor>x\<rfloor>))"
    by simp
next
  fix x :: real
  assume "2 \<le> x"
  then have "\<lfloor>x / 2\<rfloor> < \<lfloor>x\<rfloor>"
    by linarith
  moreover have "0 < \<lfloor>x\<rfloor>"
    using \<open>2 \<le> x\<close> by linarith
  ultimately show "(x / 2, x) \<in> measure (\<lambda>x. nat \<lfloor>x\<rfloor>)"
    by simp
qed

function exponent_down :: "real \<Rightarrow> int" where
  "exponent_down x = (if 0 < x \<and> x < 1 then exponent_down (x * 2) - 1 else 0)"
  by pat_completeness auto
termination
proof (relation "measure (\<lambda>x. nat \<lfloor>1 / x\<rfloor>)")
  show "wf (measure (\<lambda>x::real. nat \<lfloor>1 / x\<rfloor>))"
    by simp
next
  fix x :: real
  assume a: "0 < x \<and> x < 1"
  define y where "y = 1 / x"
  have y: "1 < y"
    using a by (simp add: y_def)
  have A: "\<lfloor>y / 2\<rfloor> < \<lfloor>y\<rfloor>"
  proof (cases "2 \<le> y")
    case True
    then show ?thesis
      by linarith
  next
    case False
    then have "\<lfloor>y / 2\<rfloor> < 1"
      by (simp add: floor_less_iff)
    moreover have "1 \<le> \<lfloor>y\<rfloor>"
      using y by (simp add: le_floor_iff)
    ultimately show ?thesis
      by linarith
  qed
  have B: "0 < \<lfloor>y\<rfloor>"
    using y by linarith
  have C: "1 / (x * 2) = y / 2"
    by (simp add: y_def)
  show "(x * 2, x) \<in> measure (\<lambda>x. nat \<lfloor>1 / x\<rfloor>)"
    unfolding in_measure C y_def [symmetric] using A B by linarith
qed

declare exponent_up.simps [simp del] exponent_down.simps [simp del]

definition exponent :: "real \<Rightarrow> int" where
  "exponent x = (if 1 \<le> x then exponent_up x else exponent_down x)"

definition roundTiesToEven :: "real \<Rightarrow> int" where
  "roundTiesToEven q =
     (let f = \<lfloor>q\<rfloor>; d = q - of_int f
      in if d < 1 / 2 then f else if 1 / 2 < d then f + 1 else if even f then f else f + 1)"

definition fl :: "real \<Rightarrow> real" where
  "fl x =
     (if x = 0 then 0
      else (let ulp = 2 powi (exponent \<bar>x\<bar> - 52)
            in sgn x * of_int (roundTiesToEven (\<bar>x\<bar> / ulp)) * ulp))"

text \<open>
  Lines 74 to 84 of \<open>processImage\<close>: the resize that keeps the aspect ratio, with
  \<open>limit\<close> for \<^verbatim>\<open>settings.maxWidth\<close>. A comparison with \<^verbatim>\<open>undefined\<close> is false, so without a
  limit the size stays as it is.
\<close>

definition resize :: "real option \<Rightarrow> real \<Rightarrow> real \<Rightarrow> real \<times> real" where
  "resize limit width height =
     (case limit of
        None \<Rightarrow> (width, height)
      | Some m \<Rightarrow>
          if width > m \<or> height > m then
            (let ratio = fl (width / height) in
             if width > height then (m, fl (m / ratio))
             else (fl (m * ratio), m))
          else (width, height))"

text \<open>
  \<open>processImage_canvas\<close> is \<open>processImage\<close> up to its last line: the canvas it has drawn
  and the quality it will encode with, \<open>Inr None\<close> where the source returns the empty
  string, and \<open>Inl TypeError\<close> where \<^verbatim>\<open>settings\<close> is \<^verbatim>\<open>undefined\<close> and \<^verbatim>\<open>settings.maxWidth\<close>
  is read. \<open>processImage\<close> adds the encoding.
\<close>

definition processImage_canvas ::
  "browser \<Rightarrow> image_source \<Rightarrow> js_error + (canvas \<times> real option) option" where
  "processImage_canvas env source =
     (let qualityMode = getPhotoQuality (photoQuality_item env);
          settings = PHOTO_SETTINGS qualityMode;
          width = real (source_width source);
          height = real (source_height source)
      in if width = 0 \<or> height = 0 then Inr None
         else if settings = Undefined then Inl TypeError
         else
           (let (w, h) = resize (settings_maxWidth settings) width height;
                cw = \<lfloor>w\<rfloor>;
                ch = \<lfloor>h\<rfloor>
            in if \<not> context2d env then Inr None
               else Inr (Some (\<lparr>canvas_width = cw, canvas_height = ch,
                                drawn = [FillRect ''#FFFFFF'' 0 0 cw ch,
                                         DrawImage source 0 0 cw ch]\<rparr>,
                              settings_quality settings))))"

definition processImage :: "browser \<Rightarrow> image_source \<Rightarrow> js_error + string" where
  "processImage env source =
     (case processImage_canvas env source of
        Inl err \<Rightarrow> Inl err
      | Inr None \<Rightarrow> Inr ''''
      | Inr (Some (c, q)) \<Rightarrow> Inr (toDataURL env c q))"

section \<open>Report screen: photos and the annotation editor\<close>

text \<open>
  The part of the component state of \<open>ReportScreen\<close> that the photo handlers read and
  write. \<open>formData_photos\<close> is \<^verbatim>\<open>formData.photos\<close> (\<open>None\<close> when the field is absent from
  the partial report); the handlers copy every other field of \<^verbatim>\<open>formData\<close> with the
  spread \<^verbatim>\<open>...prev\<close>. \<open>canvasRef\<close> and \<open>videoRef\<close> are \<open>None\<close> while the element is not
  mounted. With the state go what the handlers leave outside the component: the message
  boxes, the console warnings and the events on the loaders of the browser.
\<close>

text \<open>
  What the upload handler does on the browser's loaders, in the order of time: the call
  \<^verbatim>\<open>reader.readAsDataURL(file)\<close> that starts the reading of a file, the assignment to
  \<^verbatim>\<open>img.src\<close> that starts the decoding of what was read, the call of \<open>processImage\<close> on
  the decoded image, and the call of \<^verbatim>\<open>resolve\<close> or \<^verbatim>\<open>reject\<close> that settles the promise of
  the file. Each event carries the name of its file.
\<close>

datatype upload_event =
  is_ReadAsDataURL: ReadAsDataURL string
  | is_ImageSrcSet: ImageSrcSet string
  | is_ProcessImage: ProcessImage string
  | is_Settled: Settled string

text \<open>The message boxes the photo handlers open; here the one of an upload in which no
  image could be processed.\<close>

datatype alert = NoImageProcessed

record screen_state =
  formData_photos :: "ReportPhoto list option"
  editorOpen :: bool
  currentPhoto :: "ReportPhoto option"
  editCaption :: string
  canvasRef :: "canvas option"
  isDrawingMode :: bool
  isCameraOpen :: bool
  videoRef :: "image_source option"
  stagedPhotos :: "ReportPhoto list"
  isPhotoPreviewOpen :: bool
  isProcessingPhotos :: bool
  alerts :: "alert list"
  warnings :: "string list"
  loader_calls :: "upload_event list"

text \<open>\<^verbatim>\<open>Date.now().toString()\<close>: the decimal digits of the clock reading.\<close>

fun Number_toString :: "nat \<Rightarrow> string" where
  "Number_toString n =
     (if n < 10 then [''0123456789'' ! n]
      else Number_toString (n div 10) @ [''0123456789'' ! (n mod 10)])"

declare Number_toString.simps [simp del]

subsection \<open>Editor\<close>

definition openEditor :: "ReportPhoto \<Rightarrow> screen_state \<Rightarrow> screen_state" where
  "openEditor photo s =
     s\<lparr>currentPhoto := Some photo,
       editCaption := (case caption photo of None \<Rightarrow> '''' | Some c \<Rightarrow> c),
       editorOpen := True,
       isDrawingMode := False\<rparr>"

text \<open>The close button of the editor (\<^verbatim>\<open>onClick={() => setEditorOpen(false)}\<close>): discard.\<close>

definition closeEditor :: "screen_state \<Rightarrow> screen_state" where
  "closeEditor s = s\<lparr>editorOpen := False\<rparr>"

definition saveEditorChanges :: "browser \<Rightarrow> screen_state \<Rightarrow> screen_state" where
  "saveEditorChanges env s =
     (case (currentPhoto s, canvasRef s) of
        (Some cp, Some cv) \<Rightarrow>
          (let newBase64 = toDataURL env cv (Some (9 / 10))
           in s\<lparr>formData_photos :=
                   map_option
                     (map (\<lambda>p. if photo_id p = photo_id cp
                                then p\<lparr>base64 := newBase64, caption := Some (editCaption s),
                                       edited := Some True\<rparr>
                                else p))
                     (formData_photos s),
                 editorOpen := False,
                 isDrawingMode := False\<rparr>)
      | _ \<Rightarrow> s)"

subsection \<open>Camera capture\<close>

text \<open>
  \<open>capturePhoto\<close> takes the reading of \<^verbatim>\<open>Date.now()\<close> at the call. An exception of
  \<open>processImage\<close> leaves the handler (\<open>Inl\<close>).
\<close>

definition capturePhoto :: "browser \<Rightarrow> nat \<Rightarrow> screen_state \<Rightarrow> js_error + screen_state" where
  "capturePhoto env now s =
     (case videoRef s of
        None \<Rightarrow> Inr s
      | Some video \<Rightarrow>
          (case processImage env video of
             Inl err \<Rightarrow> Inl err
           | Inr processedBase64 \<Rightarrow>
               if processedBase64 \<noteq> '''' then
                 (let newPhoto = \<lparr>photo_id = Number_toString now, base64 = processedBase64,
                                  caption = Some '''', edited = None\<rparr>
                  in Inr (s\<lparr>formData_photos :=
                               Some ((case formData_photos s of None \<Rightarrow> [] | Some ps \<Rightarrow> ps)
                                     @ [newPhoto]),
                             isCameraOpen := False\<rparr>))
               else Inr s))"

subsection \<open>Gallery upload\<close>







definition confirmStagedPhotos :: "screen_state \<Rightarrow> screen_state" where
  "confirmStagedPhotos s =
     (if stagedPhotos s = [] then s\<lparr>isPhotoPreviewOpen := False\<rparr>
      else s\<lparr>formData_photos :=
                Some ((case formData_photos s of None \<Rightarrow> [] | Some ps \<Rightarrow> ps) @ stagedPhotos s),
              stagedPhotos := [],
              isPhotoPreviewOpen := False\<rparr>)"

section \<open>Screens that resolve the template of a report\<close>

text \<open>
  \<open>HomeScreen.loadData\<close> awaits \<open>getTemplates\<close> and \<open>getAllReports\<close> together, sorts the
  templates in place (newest first), and lists the drafts, each with the title of its
  template: \<^verbatim>\<open>t?.title || 'Modelo Excluido'\<close>, the fallback standing for a template that is
  not found and for an empty title. The drafts are sorted by
  \<^verbatim>\<open>updatedAt || createdAt\<close>, latest first. \<^verbatim>\<open>Array.prototype.sort\<close> is stable, as
  \<open>sort_key\<close> is. The character U+00ED of the fallback is one code unit.
\<close>

definition MODELO_EXCLUIDO :: string where
  "MODELO_EXCLUIDO = ''Modelo Exclu'' @ [CHR 0xED] @ ''do''"

record draft_row =
  row_report :: ReportData
  templateTitle :: string

definition last_change :: "ReportData \<Rightarrow> int" where
  "last_change r =
     (case updatedAt r of None \<Rightarrow> createdAt r | Some u \<Rightarrow> if u = 0 then createdAt r else u)"

definition join_title :: "ReportTemplate list \<Rightarrow> ReportData \<Rightarrow> draft_row" where
  "join_title tmpls r =
     \<lparr>row_report = r,
      templateTitle =
        (case find (\<lambda>tmpl. template_id tmpl = templateId r) tmpls of
           None \<Rightarrow> MODELO_EXCLUIDO
         | Some t \<Rightarrow> if title t = [] then MODELO_EXCLUIDO else title t)\<rparr>"

definition HomeScreen_loadData ::
  "engine \<Rightarrow> database \<Rightarrow> (ReportTemplate list \<times> draft_row list) promise" where
  "HomeScreen_loadData e db =
     (case getTemplates e db of
        Pending \<Rightarrow> Pending
      | Rejected err \<Rightarrow> Rejected err
      | Resolved fetched \<Rightarrow>
          (case getAllReports e db of
             Pending \<Rightarrow> Pending
           | Rejected err \<Rightarrow> Rejected err
           | Resolved all_reports \<Rightarrow>
               (let tmpls = sort_key (\<lambda>t. - template_createdAt t) fetched;
                    draftList =
                      sort_key (\<lambda>row. - last_change (row_report row))
                        (map (join_title tmpls)
                           (filter (\<lambda>r. status r = Some draft) all_reports))
                in Resolved (tmpls, draftList))))"

text \<open>
  \<open>ReportScreen.loadData\<close> runs with the route parameters \<^verbatim>\<open>templateId\<close> and \<^verbatim>\<open>reportId\<close>.
  Its effects are the calls of \<^verbatim>\<open>setFormData\<close> and \<^verbatim>\<open>setTemplate\<close>, the alert followed by
  \<^verbatim>\<open>navigate('/')\<close> when no template was found, and \<^verbatim>\<open>console.error\<close> in the \<^verbatim>\<open>catch\<close>
  block. The photos of a stored report are \<open>ReportPhoto\<close> records here, so the migration
  of photos stored as plain strings does not apply.
\<close>

record load_result =
  loaded_formData :: "ReportData option"
  loaded_activityExecuted :: "string option"
  loaded_template :: "ReportTemplate option"
  not_found_alert :: bool
  navigated_home :: bool
  console_error :: "js_error option"

definition load_nothing :: load_result where
  "load_nothing =
     \<lparr>loaded_formData = None, loaded_activityExecuted = None, loaded_template = None,
      not_found_alert = False, navigated_home = False, console_error = None\<rparr>"

definition load_finish :: "load_result \<Rightarrow> ReportTemplate option \<Rightarrow> load_result" where
  "load_finish res tmpl =
     (case tmpl of
        Some t \<Rightarrow> res\<lparr>loaded_template := Some t\<rparr>
      | None \<Rightarrow> res\<lparr>not_found_alert := True, navigated_home := True\<rparr>)"

text \<open>A route parameter counts when it is present and not the empty string.\<close>

definition truthy :: "string option \<Rightarrow> string option" where
  "truthy param = (case param of None \<Rightarrow> None | Some v \<Rightarrow> if v = [] then None else Some v)"

definition ReportScreen_loadData ::
  "engine \<Rightarrow> database \<Rightarrow> string option \<Rightarrow> string option \<Rightarrow> load_result" where
  "ReportScreen_loadData e db templateId_param reportId_param =
     (case truthy reportId_param of
        Some reportId \<Rightarrow>
          (case getReport e db reportId of
             Pending \<Rightarrow> load_nothing
           | Rejected err \<Rightarrow> load_nothing\<lparr>console_error := Some err\<rparr>
           | Resolved None \<Rightarrow> load_finish load_nothing None
           | Resolved (Some reportData) \<Rightarrow>
               (case getTemplates e db of
                  Pending \<Rightarrow> load_nothing\<lparr>loaded_formData := Some reportData\<rparr>
                | Rejected err \<Rightarrow>
                    load_nothing\<lparr>loaded_formData := Some reportData, console_error := Some err\<rparr>
                | Resolved tmpls \<Rightarrow>
                    load_finish (load_nothing\<lparr>loaded_formData := Some reportData\<rparr>)
                      (find (\<lambda>t. template_id t = templateId reportData) tmpls)))
      | None \<Rightarrow>
          (case truthy templateId_param of
             Some wanted \<Rightarrow>
               (case getTemplates e db of
                  Pending \<Rightarrow> load_nothing
                | Rejected err \<Rightarrow> load_nothing\<lparr>console_error := Some err\<rparr>
                | Resolved tmpls \<Rightarrow>
                    (case find (\<lambda>t. template_id t = wanted) tmpls of
                       None \<Rightarrow> load_finish load_nothing None
                     | Some tmpl \<Rightarrow>
                         load_finish
                           (load_nothing
                              \<lparr>loaded_activityExecuted := Some (template_activityExecuted tmpl)\<rparr>)
                           (Some tmpl)))
           | None \<Rightarrow> load_finish load_nothing None))"

section \<open>Sample data\<close>

text \<open>Two templates, a draft that refers to the first one, a second report, a user, and
  an engine that fails exactly the write of the second template.\<close>

definition sample_template :: ReportTemplate where
  "sample_template =
     \<lparr>template_id = ''t1'', title = ''Pump check'', omDescription = ''OM'',
      template_activityExecuted = ''inspect'', template_createdAt = 1\<rparr>"

definition other_template :: ReportTemplate where
  "other_template =
     \<lparr>template_id = ''t2'', title = ''Belt check'', omDescription = ''OM'',
      template_activityExecuted = ''align'', template_createdAt = 2\<rparr>"

definition sample_report :: ReportData where
  "sample_report =
     \<lparr>report_id = ''r1'', templateId = ''t1'', date = ''2024-05-01'',
      equipment = ''Pump'', omNumber = ''4711'', activityType = Corretiva,
      activityExecuted = None, startTime = ''08:00'', endTime = ''17:00'',
      iamoDeviation = False, iamoDeviationDetails = '''', omFinished = True,
      pendings = False, pendingDetails = None, team = ''A'', workCenter = ''SC108HH'',
      technicians = ''Ana'', photos = [], status = Some draft, createdAt = 10,
      updatedAt = Some 20\<rparr>"

definition other_report :: ReportData where
  "other_report = sample_report\<lparr>report_id := ''r2'', equipment := ''Belt''\<rparr>"

definition sample_user :: User where
  "sample_user = \<lparr>username = ''ana'', password = ''secret'', user_createdAt = 5\<rparr>"

definition sample_database :: database where
  "sample_database =
     \<lparr>templates = [sample_template], reports = [sample_report], users = [sample_user]\<rparr>"

definition second_put_fails :: engine where
  "second_put_fails =
     \<lparr>open_fails = False, request_fails = (\<lambda>req. req = Put TEMPLATE_STORE ''t2'')\<rparr>"

text \<open>
  A browser with no stored quality mode, a working canvas, and an encoder that writes
  the pictures drawn on the canvas after the prefix of a JPEG data URI; a thin image, an
  image whose proportional height is the whole number 792, a video frame, and five
  files of which the third does not decode.
\<close>

fun picture_of :: "draw_op \<Rightarrow> string" where
  "picture_of (FillRect style x y w h) = []"
| "picture_of (DrawImage (HTMLVideoElement vw vh frame) x y w h) = frame"
| "picture_of (DrawImage (HTMLImageElement nw nh picture) x y w h) = picture"

definition sample_encoder :: "canvas \<Rightarrow> real option \<Rightarrow> string" where
  "sample_encoder c q = ''data:image/jpeg;base64,'' @ concat (map picture_of (drawn c))"

definition sample_browser :: browser where
  "sample_browser = \<lparr>photoQuality_item = None, context2d = True, toDataURL = sample_encoder\<rparr>"

definition ultra_browser :: browser where
  "ultra_browser =
     \<lparr>photoQuality_item = Some ''ultra'', context2d = True, toDataURL = sample_encoder\<rparr>"

definition thin_image :: image_source where
  "thin_image = HTMLImageElement 2000 30 ''thin''"

definition small_image :: image_source where
  "small_image = HTMLImageElement 640 480 ''small''"

definition whole_number_image :: image_source where
  "whole_number_image = HTMLImageElement 1280 990 ''whole''"

definition large_image :: image_source where
  "large_image = HTMLImageElement 4000 3000 ''large''"

definition initial_screen :: screen_state where
  "initial_screen =
     \<lparr>formData_photos = Some [], editorOpen = False, currentPhoto = None, editCaption = '''',
      canvasRef = None, isDrawingMode = False, isCameraOpen = False, videoRef = None,
      stagedPhotos = [], isPhotoPreviewOpen = False, isProcessingPhotos = False,
      alerts = [], warnings = [], loader_calls = []\<rparr>"

definition camera_screen :: screen_state where
  "camera_screen =
     initial_screen\<lparr>isCameraOpen := True, videoRef := Some (HTMLVideoElement 1920 1080 ''frame'')\<rparr>"


definition first_photo :: ReportPhoto where
  "first_photo = \<lparr>photo_id = ''1000'', base64 = ''data:image/jpeg;base64,A'',
                  caption = Some '''', edited = None\<rparr>"

definition second_photo :: ReportPhoto where
  "second_photo = \<lparr>photo_id = ''2000'', base64 = ''data:image/jpeg;base64,B'',
                   caption = Some ''valve'', edited = None\<rparr>"

definition editing_screen :: screen_state where
  "editing_screen =
     (openEditor second_photo (initial_screen\<lparr>formData_photos := Some [first_photo, second_photo]\<rparr>))
       \<lparr>canvasRef := Some \<lparr>canvas_width = 800, canvas_height = 600,
                           drawn = [DrawImage (HTMLImageElement 800 600 ''B+ink'') 0 0 800 600]\<rparr>,
        editCaption := ''cracked valve''\<rparr>"

section \<open>Properties of the local store\<close>

lemma store_get_put: "store_get kp (store_put kp s v) (kp v) = Some v"
  by (induction s) (simp_all add: store_get_def store_put_def store_delete_def)

lemma store_get_put_other:
  "k \<noteq> kp v \<Longrightarrow> store_get kp (store_put kp s v) k = store_get kp s k"
  by (induction s) (simp_all add: store_get_def store_put_def store_delete_def)

lemma store_delete_twice: "store_delete kp (store_delete kp s k) k = store_delete kp s k"
  by (simp add: store_delete_def)

lemma store_put_overwrites:
  "kp v' = kp v \<Longrightarrow> store_put kp (store_put kp s v') v = store_put kp s v"
  by (simp add: store_put_def store_delete_def)

lemma store_get_delete: "store_get kp (store_delete kp s k) k = None"
  by (induction s) (simp_all add: store_get_def store_delete_def)

lemma users_request_event: "users (working (request_event e tx item)) = users (working tx)"
  by (cases item)
    (simp_all add: request_event_def fire_error_event_def tx_onerror_def req_onerror_def)

lemma users_import_fold:
  "users (working (foldl (request_event e) tx items)) = users (working tx)"
  by (induction items arbitrary: tx) (simp_all add: users_request_event)

text \<open>
  C10. An import leaves the user store as it was, whatever the backup holds and whichever
  requests the engine fails: the transaction of \<open>importBackup\<close> covers the template store
  and the report store only.
\<close>

theorem importBackup_users_unchanged:
  "users (snd (importBackup e db data)) = users db"
  by (simp add: importBackup_def Let_def users_import_fold tx_oncomplete_def)

lemma store_get_mem: "store_get kp s k = Some v \<Longrightarrow> v \<in> set s \<and> kp v = k"
  by (auto simp: store_get_def find_Some_iff)

lemma find_sort_key_None: "find P xs = None \<Longrightarrow> find P (sort_key f xs) = None"
  by (simp add: find_None_iff)

lemma find_deleted: "find (\<lambda>t. kp t = k) (store_getAll kp (store_delete kp s k)) = None"
  by (simp add: find_None_iff store_getAll_def store_delete_def)

lemma join_title_missing:
  "find (\<lambda>t. template_id t = templateId r) tmpls = None \<Longrightarrow>
   join_title tmpls r = \<lparr>row_report = r, templateTitle = MODELO_EXCLUIDO\<rparr>"
  by (simp add: join_title_def)

subsection \<open>importBackup\<close>

lemma failed_request_event:
  "aborted tx \<or> request_fails e (item_request item) \<Longrightarrow>
   aborted (request_event e tx item) \<and>
   import_promise (request_event e tx item) = settle (import_promise tx) (Rejected EngineError)"
  by (simp add: request_event_def fire_error_event_def tx_onerror_def req_onerror_def)

lemma aborted_fold:
  "aborted tx \<Longrightarrow> import_promise tx = Rejected err \<Longrightarrow>
   aborted (foldl (request_event e) tx items) \<and>
   import_promise (foldl (request_event e) tx items) = Rejected err"
  by (induction items arbitrary: tx) (simp_all add: failed_request_event settle_def)

lemma failing_request_aborts:
  "import_promise tx = Pending \<or> import_promise tx = Rejected EngineError \<Longrightarrow>
   \<exists>item \<in> set items. request_fails e (item_request item) \<Longrightarrow>
   aborted (foldl (request_event e) tx items) \<and>
   import_promise (foldl (request_event e) tx items) = Rejected EngineError"
proof (induction items arbitrary: tx)
  case Nil
  then show ?case by simp
next
  case (Cons item items)
  show ?case
  proof (cases "aborted tx \<or> request_fails e (item_request item)")
    case True
    then have "aborted (request_event e tx item)"
      and "import_promise (request_event e tx item) = Rejected EngineError"
      using Cons.prems(1) failed_request_event [of tx e item] by (auto simp: settle_def)
    then show ?thesis
      using aborted_fold [of "request_event e tx item" EngineError e items] by simp
  next
    case False
    then have step: "import_promise (request_event e tx item) = import_promise tx"
      by (simp add: request_event_def)
    from False Cons.prems(2) have "\<exists>i \<in> set items. request_fails e (item_request i)"
      by auto
    with Cons.IH [of "request_event e tx item"] Cons.prems(1) step show ?thesis
      by simp
  qed
qed

text \<open>
  In general: as soon as the engine fails one write of an import, the promise is rejected
  by \<^verbatim>\<open>tx.onerror\<close> and the database is what it was before the import.
\<close>

lemma importBackup_failed_write_rolls_back:
  assumes "\<not> open_fails e"
    and "\<exists>item \<in> set (import_items data). request_fails e (item_request item)"
  shows "importBackup e db data = (Rejected EngineError, db)"
  using assms failing_request_aborts [of
      "\<lparr>errorOccurred = False, import_promise = Pending, working = db, aborted = False\<rparr>"
      "import_items data" e]
  by (simp add: importBackup_def Let_def)

text \<open>
  C1, at a concrete import. The backup holds two templates; the engine stores the first
  and fails the write of the second. The claim expects the promise to be rejected with
  the error of \<^verbatim>\<open>tx.oncomplete\<close> and the first template to stay committed. The error event
  of the failed write is not prevented from aborting the transaction, so the promise is
  rejected by \<^verbatim>\<open>tx.onerror\<close> and the database is still the fresh one: the write that
  succeeded is rolled back.
\<close>

theorem importBackup_partial_failure_rolls_back:
  "importBackup second_put_fails fresh_database
     \<lparr>backup_reports = [], backup_templates = [sample_template, other_template]\<rparr>
   = (Rejected EngineError, fresh_database)"
  by (simp add: importBackup_def import_items_def request_event_def fire_error_event_def
      tx_onerror_def req_onerror_def settle_def fresh_database_def second_put_fails_def
      sample_template_def other_template_def store_put_def store_delete_def)

subsection \<open>Reports and templates\<close>

text \<open>
  C4. A report whose save resolved is read back as it was saved (the caller has set
  \<^verbatim>\<open>updatedAt\<close> before the call, so the record read back carries the refreshed value).
  The save is an upsert keyed by the identifier: the lookup of every other identifier
  gives what it gave before, the store holds the saved report and the reports it held
  under other identifiers, and the templates and users are untouched. Saving the same
  report again changes nothing, and of two saves under one identifier only the last one
  is left in the store.
\<close>

theorem saveReport_getReport_roundtrip:
  assumes "fst (saveReport e db r) = Resolved ()"
    and "\<not> open_fails e'"
    and "\<not> request_fails e' (Get REPORT_STORE k)"
  shows "getReport e' (snd (saveReport e db r)) k
           = (if k = report_id r then Resolved (Some r) else getReport e' db k)
    \<and> set (reports (snd (saveReport e db r)))
         = insert r {x \<in> set (reports db). report_id x \<noteq> report_id r}
    \<and> templates (snd (saveReport e db r)) = templates db
    \<and> users (snd (saveReport e db r)) = users db
    \<and> saveReport e (snd (saveReport e db r)) r = saveReport e db r
    \<and> (\<forall>r'. report_id r' = report_id r \<longrightarrow> fst (saveReport e db r') = Resolved () \<longrightarrow>
          snd (saveReport e (snd (saveReport e db r')) r) = snd (saveReport e db r))"
proof -
  from assms(1) have ok: "\<not> open_fails e" "\<not> request_fails e (Put REPORT_STORE (report_id r))"
    by (auto simp: saveReport_def split: if_splits)
  then have db': "snd (saveReport e db r)
      = db\<lparr>reports := store_put report_id (reports db) r\<rparr>"
    by (simp add: saveReport_def)
  have "getReport e' (snd (saveReport e db r)) k
           = (if k = report_id r then Resolved (Some r) else getReport e' db k)"
    using assms(2,3) by (simp add: db' getReport_def store_get_put store_get_put_other)
  moreover have "set (reports (snd (saveReport e db r)))
         = insert r {x \<in> set (reports db). report_id x \<noteq> report_id r}"
    by (auto simp: db' store_put_def store_delete_def)
  moreover have "saveReport e (snd (saveReport e db r)) r = saveReport e db r"
    using ok by (simp add: saveReport_def store_put_overwrites)
  moreover have "\<forall>r'. report_id r' = report_id r \<longrightarrow> fst (saveReport e db r') = Resolved () \<longrightarrow>
          snd (saveReport e (snd (saveReport e db r')) r) = snd (saveReport e db r)"
    using ok by (auto simp: saveReport_def store_put_overwrites)
  ultimately show ?thesis
    by (simp add: db')
qed

theorem saveReport_getReport_roundtrip_witness:
  "getReport healthy_engine (snd (saveReport healthy_engine sample_database other_report)) ''r2''
     = Resolved (Some other_report)
   \<and> getReport healthy_engine (snd (saveReport healthy_engine sample_database other_report)) ''r1''
     = Resolved (Some sample_report)
   \<and> reports (snd (saveReport healthy_engine sample_database other_report))
     = [sample_report, other_report]
   \<and> saveReport healthy_engine (snd (saveReport healthy_engine sample_database other_report))
       other_report
     = saveReport healthy_engine sample_database other_report
   \<and> snd (saveReport healthy_engine
            (snd (saveReport healthy_engine sample_database
                    (other_report\<lparr>technicians := ''Bob''\<rparr>)))
            other_report)
     = snd (saveReport healthy_engine sample_database other_report)"
  using saveReport_getReport_roundtrip
      [of healthy_engine sample_database other_report healthy_engine "''r2''"]
    saveReport_getReport_roundtrip
      [of healthy_engine sample_database other_report healthy_engine "''r1''"]
  by (simp add: saveReport_def getReport_def healthy_engine_def sample_database_def
      sample_report_def other_report_def store_put_def store_delete_def store_get_def)

text \<open>
  C6. The pair \<^verbatim>\<open>admin\<close>/\<^verbatim>\<open>admin\<close> is accepted before the database is opened, so with any
  database and any engine, also one that cannot open the database. For every other pair,
  when the engine answers the lookup, the result is whether a user of that name is
  stored with exactly that password: \<open>False\<close> for a wrong password and \<open>False\<close>, not a
  rejection, for a user that is not stored.
\<close>

theorem validateUser_backdoor_and_lookup:
  "validateUser e db ''admin'' ''admin'' = Resolved True
   \<and> ((uname \<noteq> ''admin'' \<or> pw \<noteq> ''admin'') \<and> \<not> open_fails e
        \<and> \<not> request_fails e (Get USER_STORE uname) \<longrightarrow>
      validateUser e db uname pw =
        Resolved (case store_get username (users db) uname of
                    None \<Rightarrow> False
                  | Some u \<Rightarrow> password u = pw))"
  by (auto simp: validateUser_def split: option.splits)

theorem validateUser_backdoor_and_lookup_witness:
  "validateUser healthy_engine fresh_database ''admin'' ''admin'' = Resolved True
   \<and> validateUser healthy_engine sample_database ''ana'' ''wrong'' = Resolved False
   \<and> validateUser healthy_engine sample_database ''bob'' ''secret'' = Resolved False
   \<and> validateUser healthy_engine sample_database ''ana'' ''secret'' = Resolved True"
  using validateUser_backdoor_and_lookup [of healthy_engine fresh_database "''ana''" "''wrong''"]
    validateUser_backdoor_and_lookup [of healthy_engine sample_database "''ana''" "''wrong''"]
    validateUser_backdoor_and_lookup [of healthy_engine sample_database "''bob''" "''secret''"]
    validateUser_backdoor_and_lookup [of healthy_engine sample_database "''ana''" "''secret''"]
  by (simp add: healthy_engine_def sample_database_def sample_user_def store_get_def)

text \<open>
  C7. Let a stored report \<open>r\<close> refer to a template, and let the deletion of that template
  resolve. The report store is untouched, \<open>getReport\<close> still returns \<open>r\<close>, and the lookup of
  its template among the stored templates finds nothing. On the home screen every draft
  that refers to the deleted template carries the title \<^verbatim>\<open>Modelo Excluido\<close> (written with
  U+00ED), and \<open>r\<close> is listed so when it is a draft. The report screen opened on \<open>r\<close> loads
  the report, shows the alert for data that was not found and returns to the home
  screen, with nothing caught by its \<^verbatim>\<open>catch\<close> block.
\<close>

theorem deleteTemplate_leaves_reports:
  assumes stored: "store_get report_id (reports db) (report_id r) = Some r"
    and deleted: "fst (deleteTemplate e db (templateId r)) = Resolved ()"
    and opens: "\<not> open_fails e'"
    and reads: "\<not> request_fails e' (Get REPORT_STORE (report_id r))"
      "\<not> request_fails e' (GetAll TEMPLATE_STORE)"
      "\<not> request_fails e' (GetAll REPORT_STORE)"
    and key: "report_id r \<noteq> []"
  shows "reports (snd (deleteTemplate e db (templateId r))) = reports db
    \<and> getReport e' (snd (deleteTemplate e db (templateId r))) (report_id r) = Resolved (Some r)
    \<and> (\<exists>tmpls. getTemplates e' (snd (deleteTemplate e db (templateId r))) = Resolved tmpls
          \<and> find (\<lambda>t. template_id t = templateId r) tmpls = None)
    \<and> (\<exists>tmpls rows.
          HomeScreen_loadData e' (snd (deleteTemplate e db (templateId r))) = Resolved (tmpls, rows)
          \<and> (\<forall>row \<in> set rows. templateId (row_report row) = templateId r \<longrightarrow>
                templateTitle row = MODELO_EXCLUIDO)
          \<and> (status r = Some draft \<longrightarrow>
                \<lparr>row_report = r, templateTitle = MODELO_EXCLUIDO\<rparr> \<in> set rows))
    \<and> ReportScreen_loadData e' (snd (deleteTemplate e db (templateId r))) None (Some (report_id r))
        = load_nothing\<lparr>loaded_formData := Some r, not_found_alert := True, navigated_home := True\<rparr>"
proof -
  let ?db = "snd (deleteTemplate e db (templateId r))"
  from deleted have db': "?db = db\<lparr>templates := store_delete template_id (templates db) (templateId r)\<rparr>"
    by (simp add: deleteTemplate_def split: if_splits)
  have frame: "reports ?db = reports db"
    by (simp add: db')
  have get: "getReport e' ?db (report_id r) = Resolved (Some r)"
    using opens reads(1) stored by (simp add: getReport_def frame)
  let ?tmpls = "store_getAll template_id (templates ?db)"
  have tm: "getTemplates e' ?db = Resolved ?tmpls"
    using opens reads(2) by (simp add: getTemplates_def)
  have missing: "find (\<lambda>t. template_id t = templateId r) ?tmpls = None"
    by (simp add: db' find_deleted)
  let ?sorted = "sort_key (\<lambda>t. - template_createdAt t) ?tmpls"
  have missing': "find (\<lambda>t. template_id t = templateId r) ?sorted = None"
    using missing by (rule find_sort_key_None)
  let ?rows = "sort_key (\<lambda>row. - last_change (row_report row))
                 (map (join_title ?sorted)
                    (filter (\<lambda>r. status r = Some draft) (store_getAll report_id (reports ?db))))"
  have home: "HomeScreen_loadData e' ?db = Resolved (?sorted, ?rows)"
    using opens reads(2,3)
    by (simp add: HomeScreen_loadData_def getTemplates_def getAllReports_def Let_def)
  have rows1: "\<forall>row \<in> set ?rows. templateId (row_report row) = templateId r \<longrightarrow>
      templateTitle row = MODELO_EXCLUIDO"
  proof
    fix row
    assume "row \<in> set ?rows"
    then obtain x where x: "row = join_title ?sorted x"
      by auto
    show "templateId (row_report row) = templateId r \<longrightarrow> templateTitle row = MODELO_EXCLUIDO"
    proof
      assume "templateId (row_report row) = templateId r"
      then have "templateId x = templateId r"
        by (simp add: x join_title_def)
      with missing' show "templateTitle row = MODELO_EXCLUIDO"
        by (simp add: x join_title_def)
    qed
  qed
  have rows2: "status r = Some draft \<longrightarrow>
      \<lparr>row_report = r, templateTitle = MODELO_EXCLUIDO\<rparr> \<in> set ?rows"
  proof
    assume d: "status r = Some draft"
    from stored have "r \<in> set (reports db)"
      by (simp add: store_get_mem)
    then have "r \<in> set (filter (\<lambda>r. status r = Some draft) (store_getAll report_id (reports ?db)))"
      using d by (simp add: frame store_getAll_def)
    then have "join_title ?sorted r \<in> set ?rows"
      by simp
    then show "\<lparr>row_report = r, templateTitle = MODELO_EXCLUIDO\<rparr> \<in> set ?rows"
      by (simp only: join_title_missing [OF missing'])
  qed
  have screen: "ReportScreen_loadData e' ?db None (Some (report_id r))
      = load_nothing\<lparr>loaded_formData := Some r, not_found_alert := True, navigated_home := True\<rparr>"
    using key by (simp add: ReportScreen_loadData_def truthy_def get tm missing load_finish_def)
  show ?thesis
    using frame get tm missing home rows1 rows2 screen by blast
qed

theorem deleteTemplate_leaves_reports_witness:
  "reports (snd (deleteTemplate healthy_engine sample_database ''t1'')) = [sample_report]
   \<and> getReport healthy_engine (snd (deleteTemplate healthy_engine sample_database ''t1'')) ''r1''
       = Resolved (Some sample_report)
   \<and> HomeScreen_loadData healthy_engine (snd (deleteTemplate healthy_engine sample_database ''t1''))
       = Resolved ([], [\<lparr>row_report = sample_report, templateTitle = MODELO_EXCLUIDO\<rparr>])"
  using deleteTemplate_leaves_reports
    [of sample_database sample_report healthy_engine healthy_engine]
  by (simp add: sample_database_def sample_report_def sample_template_def healthy_engine_def
      deleteTemplate_def store_get_def store_getAll_def store_delete_def
      HomeScreen_loadData_def getReport_def getTemplates_def getAllReports_def join_title_def
      Let_def)

section \<open>Properties of the image pipeline\<close>

lemmas fl_eval =
  fl_def exponent_def exponent_up.simps exponent_down.simps roundTiesToEven_def Let_def

lemma entry_maxWidth:
  "PHOTO_SETTINGS key = Entry st \<Longrightarrow>
   maxWidth st = 1600 \<or> maxWidth st = 1024 \<or> maxWidth st = 800"
  by (auto simp: PHOTO_SETTINGS_def split: if_splits)

subsection \<open>Rounding to the nearest double\<close>

lemma exponent_up_bounds:
  "1 \<le> x \<Longrightarrow> 2 powi (exponent_up x) \<le> x \<and> x < 2 powi (exponent_up x + 1)"
proof (induction x rule: exponent_up.induct)
  case (1 x)
  show ?case
  proof (cases "2 \<le> x")
    case True
    define P :: real where "P = 2 powi (exponent_up (x / 2))"
    from True have "1 \<le> x / 2"
      by simp
    with "1.IH" True have "P \<le> x / 2 \<and> x / 2 < 2 powi (exponent_up (x / 2) + 1)"
      by (simp add: P_def)
    moreover have s: "2 powi (exponent_up (x / 2) + 1) = 2 * P"
      by (simp add: P_def power_int_add)
    ultimately have ih: "P \<le> x / 2" "x / 2 < 2 * P"
      by simp_all
    have e: "exponent_up x = exponent_up (x / 2) + 1"
      using True by (subst exponent_up.simps) simp
    have "2 powi (exponent_up x) = 2 * P"
      by (simp only: e s)
    moreover have "2 powi (exponent_up x + 1) = 2 * (2 * P)"
      by (simp add: e P_def power_int_add)
    ultimately show ?thesis
      using ih by simp
  next
    case False
    then have "exponent_up x = 0"
      by (subst exponent_up.simps) simp
    with False "1.prems" show ?thesis
      by simp
  qed
qed

lemma exponent_down_bounds:
  "0 < x \<Longrightarrow> x < 1 \<Longrightarrow>
   2 powi (exponent_down x) \<le> x \<and> x < 2 powi (exponent_down x + 1)"
proof (induction x rule: exponent_down.induct)
  case (1 x)
  define P :: real where "P = 2 powi (exponent_down (x * 2))"
  have e: "exponent_down x = exponent_down (x * 2) - 1"
    using "1.prems" by (subst exponent_down.simps) simp
  have l: "2 powi (exponent_down x) = P / 2"
    by (simp add: e P_def power_int_diff)
  have r: "2 powi (exponent_down x + 1) = P"
    by (simp add: e P_def)
  show ?case
  proof (cases "x * 2 < 1")
    case True
    with "1.IH" "1.prems" have "P \<le> x * 2 \<and> x * 2 < 2 powi (exponent_down (x * 2) + 1)"
      by (simp add: P_def)
    moreover have "2 powi (exponent_down (x * 2) + 1) = 2 * P"
      by (simp add: P_def power_int_add)
    ultimately have "P \<le> x * 2" "x * 2 < 2 * P"
      by simp_all
    then show ?thesis
      unfolding l r by simp
  next
    case False
    then have "exponent_down (x * 2) = 0"
      by (subst exponent_down.simps) simp
    then have "P = 1"
      by (simp add: P_def)
    with False "1.prems" show ?thesis
      unfolding l r by simp
  qed
qed

lemma exponent_bounds:
  "0 < x \<Longrightarrow> 2 powi (exponent x) \<le> x \<and> x < 2 powi (exponent x + 1)"
  using exponent_up_bounds [of x] exponent_down_bounds [of x]
  by (cases "1 \<le> x") (simp_all add: exponent_def)

lemma roundTiesToEven_near: "\<bar>of_int (roundTiesToEven q) - q\<bar> \<le> 1 / 2"
proof -
  have "of_int \<lfloor>q\<rfloor> \<le> q" "q < of_int \<lfloor>q\<rfloor> + 1"
    by linarith+
  then show ?thesis
    unfolding roundTiesToEven_def Let_def by (auto simp: abs_le_iff)
qed

text \<open>The relative error of one rounding is at most \<open>2 ^ -53\<close>.\<close>

lemma fl_error:
  assumes "0 < x"
  shows "\<bar>fl x - x\<bar> \<le> x / 2 ^ 53"
proof -
  define ulp :: real where "ulp = 2 powi (exponent x - 52)"
  define n :: real where "n = of_int (roundTiesToEven (x / ulp))"
  define q where "q = x / ulp"
  have ulp_pos: "0 < ulp"
    by (simp add: ulp_def)
  have flx: "fl x = n * ulp"
    using assms by (simp add: fl_def Let_def ulp_def n_def)
  have xq: "x = q * ulp"
    using ulp_pos by (simp add: q_def)
  have near: "\<bar>n - q\<bar> \<le> 1 / 2"
    unfolding n_def q_def by (rule roundTiesToEven_near)
  have "fl x - x = (n - q) * ulp"
    by (simp add: flx left_diff_distrib xq [symmetric])
  then have "\<bar>fl x - x\<bar> = \<bar>n - q\<bar> * ulp"
    using ulp_pos by (simp add: abs_mult)
  also have "\<dots> \<le> (1 / 2) * ulp"
    using near ulp_pos by (intro mult_right_mono) auto
  finally have err: "\<bar>fl x - x\<bar> \<le> ulp / 2"
    by simp
  have "2 powi (exponent x) \<le> x"
    using exponent_bounds [OF assms] by simp
  moreover have "(2::real) powi (exponent x) = ulp * 2 ^ 52"
    by (simp add: ulp_def power_int_diff)
  ultimately have "ulp * 2 ^ 52 \<le> x"
    by simp
  then have "ulp / 2 \<le> x / 2 ^ 53"
    by simp
  with err show ?thesis
    by linarith
qed

lemma fl_bounds:
  assumes "0 < x"
  shows "x - x / 2 ^ 53 \<le> fl x" "fl x \<le> x + x / 2 ^ 53" "0 < fl x"
proof -
  have e: "\<bar>fl x - x\<bar> \<le> x / 2 ^ 53"
    by (rule fl_error [OF assms])
  show a: "x - x / 2 ^ 53 \<le> fl x"
    using e by linarith
  show "fl x \<le> x + x / 2 ^ 53"
    using e by linarith
  have "x / 2 ^ 53 < x"
    using assms by simp
  with a show "0 < fl x"
    by linarith
qed

text \<open>Two roundings in a row, as in \<^verbatim>\<open>width / ratio\<close> and \<^verbatim>\<open>height * ratio\<close> with the rounded
  \<^verbatim>\<open>ratio\<close>: the relative error is at most \<open>2 ^ -51\<close>.\<close>

lemma fl_quotient_error:
  fixes t c :: real
  assumes "0 < t" "0 < c"
  shows "\<bar>fl (c / fl t) - c / t\<bar> \<le> (c / t) / 2 ^ 51"
proof -
  define k1 :: real where "k1 = 1 - 1 / 2 ^ 53"
  define k2 :: real where "k2 = 1 + 1 / 2 ^ 53"
  define x where "x = c / t"
  have k: "0 < k1" "0 < k2"
    by (simp_all add: k1_def k2_def)
  have xpos: "0 < x"
    using assms by (simp add: x_def)
  have r: "t * k1 \<le> fl t" "fl t \<le> t * k2" "0 < fl t"
    using fl_bounds [OF assms(1)] by (simp_all add: k1_def k2_def algebra_simps)
  define s where "s = c / fl t"
  have spos: "0 < s"
    using assms r by (simp add: s_def)
  have "c / (t * k2) \<le> s"
    unfolding s_def using assms r k by (intro divide_left_mono mult_pos_pos) auto
  then have s1: "x / k2 \<le> s"
    by (simp add: x_def)
  have "s \<le> c / (t * k1)"
    unfolding s_def using assms r k by (intro divide_left_mono mult_pos_pos) auto
  then have s2: "s \<le> x / k1"
    by (simp add: x_def)
  have y: "s * k1 \<le> fl s" "fl s \<le> s * k2"
    using fl_bounds [OF spos] by (simp_all add: k1_def k2_def algebra_simps)
  have "(x / k2) * k1 \<le> s * k1"
    using s1 k by (intro mult_right_mono) auto
  with y have lo: "x * (k1 / k2) \<le> fl s"
    by simp
  have "s * k2 \<le> (x / k1) * k2"
    using s2 k by (intro mult_right_mono) auto
  with y have hi: "fl s \<le> x * (k2 / k1)"
    by simp
  have c1: "k2 / k1 \<le> 1 + 1 / 2 ^ 51"
    by (simp add: k1_def k2_def)
  have c2: "1 - 1 / 2 ^ 51 \<le> k1 / k2"
    by (simp add: k1_def k2_def)
  have "x * (k2 / k1) \<le> x * (1 + 1 / 2 ^ 51)"
    using c1 xpos by (intro mult_left_mono) auto
  moreover have "x * (1 + 1 / 2 ^ 51) = x + x / 2 ^ 51"
    by (simp add: algebra_simps)
  ultimately have hi': "fl s \<le> x + x / 2 ^ 51"
    using hi by linarith
  have "x * (1 - 1 / 2 ^ 51) \<le> x * (k1 / k2)"
    using c2 xpos by (intro mult_left_mono) auto
  moreover have "x * (1 - 1 / 2 ^ 51) = x - x / 2 ^ 51"
    by (simp add: algebra_simps)
  ultimately have lo': "x - x / 2 ^ 51 \<le> fl s"
    using lo by linarith
  from lo' hi' show ?thesis
    unfolding s_def x_def by linarith
qed

lemma fl_product_error:
  fixes t c :: real
  assumes "0 < t" "0 < c"
  shows "\<bar>fl (c * fl t) - c * t\<bar> \<le> (c * t) / 2 ^ 51"
proof -
  define k1 :: real where "k1 = 1 - 1 / 2 ^ 53"
  define k2 :: real where "k2 = 1 + 1 / 2 ^ 53"
  define x where "x = c * t"
  have k: "0 < k1" "0 < k2"
    by (simp_all add: k1_def k2_def)
  have xpos: "0 < x"
    using assms by (simp add: x_def)
  have r: "t * k1 \<le> fl t" "fl t \<le> t * k2" "0 < fl t"
    using fl_bounds [OF assms(1)] by (simp_all add: k1_def k2_def algebra_simps)
  define s where "s = c * fl t"
  have spos: "0 < s"
    using assms r by (simp add: s_def)
  have "c * (t * k1) \<le> s"
    unfolding s_def using assms r by (intro mult_left_mono) auto
  then have s1: "x * k1 \<le> s"
    by (simp add: x_def mult.assoc)
  have "s \<le> c * (t * k2)"
    unfolding s_def using assms r by (intro mult_left_mono) auto
  then have s2: "s \<le> x * k2"
    by (simp add: x_def mult.assoc)
  have y: "s * k1 \<le> fl s" "fl s \<le> s * k2"
    using fl_bounds [OF spos] by (simp_all add: k1_def k2_def algebra_simps)
  have "(x * k1) * k1 \<le> s * k1"
    using s1 k by (intro mult_right_mono) auto
  with y have lo: "x * (k1 * k1) \<le> fl s"
    by (simp add: mult.assoc)
  have "s * k2 \<le> (x * k2) * k2"
    using s2 k by (intro mult_right_mono) auto
  with y have hi: "fl s \<le> x * (k2 * k2)"
    by (simp add: mult.assoc)
  have c1: "k2 * k2 \<le> 1 + 1 / 2 ^ 51"
    by (simp add: k1_def k2_def)
  have c2: "1 - 1 / 2 ^ 51 \<le> k1 * k1"
    by (simp add: k1_def k2_def)
  have "x * (k2 * k2) \<le> x * (1 + 1 / 2 ^ 51)"
    using c1 xpos by (intro mult_left_mono) auto
  moreover have "x * (1 + 1 / 2 ^ 51) = x + x / 2 ^ 51"
    by (simp add: algebra_simps)
  ultimately have hi': "fl s \<le> x + x / 2 ^ 51"
    using hi by linarith
  have "x * (1 - 1 / 2 ^ 51) \<le> x * (k1 * k1)"
    using c2 xpos by (intro mult_left_mono) auto
  moreover have "x * (1 - 1 / 2 ^ 51) = x - x / 2 ^ 51"
    by (simp add: algebra_simps)
  ultimately have lo': "x - x / 2 ^ 51 \<le> fl s"
    using lo by linarith
  from lo' hi' show ?thesis
    unfolding s_def x_def by linarith
qed

text \<open>
  A number closer to the fraction \<open>p / q\<close> than \<open>1 / q\<close> has the floor of the fraction,
  or one less when the fraction is a whole number.
\<close>

lemma floor_near_fraction:
  fixes y :: real and p q :: nat
  assumes q: "0 < q" and near: "\<bar>y - real p / real q\<bar> < 1 / real q"
  shows "\<lceil>real p / real q\<rceil> - 1 \<le> \<lfloor>y\<rfloor> \<and> \<lfloor>y\<rfloor> \<le> \<lfloor>real p / real q\<rfloor>"
proof -
  define x where "x = real p / real q"
  define k where "k = p div q"
  define r where "r = p mod q"
  have p: "real p = real k * real q + real r"
    unfolding k_def r_def by (metis div_mult_mod_eq of_nat_add of_nat_mult)
  have rq: "r < q"
    using q by (simp add: r_def)
  have x: "x = real k + real r / real q"
    using q by (simp add: x_def p field_simps)
  have fx: "\<lfloor>x\<rfloor> = int k"
    unfolding x_def k_def by (simp add: floor_divide_of_nat_eq)
  have inv: "1 / real q \<le> 1"
    using q by simp
  show ?thesis
  proof (cases "r = 0")
    case True
    then have xk: "x = real k"
      by (simp add: x)
    then have cx: "\<lceil>x\<rceil> = int k"
      by simp
    from near inv have "real k - 1 < y" "y < real k + 1"
      unfolding x_def [symmetric] xk by linarith+
    then have "int k - 1 \<le> \<lfloor>y\<rfloor>" "\<lfloor>y\<rfloor> \<le> int k"
      by linarith+
    then show ?thesis
      unfolding x_def [symmetric] cx fx by simp
  next
    case False
    then have r1: "1 \<le> real r"
      by simp
    have r2: "real r + 1 \<le> real q"
      using rq by linarith
    have a: "1 / real q \<le> real r / real q"
      using r1 q by (intro divide_right_mono) auto
    have "(real r + 1) / real q \<le> real q / real q"
      using r2 q by (intro divide_right_mono) auto
    then have b: "real r / real q + 1 / real q \<le> 1"
      using q by (simp add: add_divide_distrib)
    have qpos: "0 < 1 / real q"
      using q by simp
    have "real k < x"
      using a qpos unfolding x by linarith
    moreover have "x < real k + 1"
      using b qpos unfolding x by linarith
    ultimately have cx: "\<lceil>x\<rceil> = int k + 1"
      by linarith
    from near have "x - 1 / real q < y" "y < x + 1 / real q"
      unfolding x_def [symmetric] by linarith+
    with a b have "real k \<le> y" "y < real k + 1"
      unfolding x by linarith+
    then have "\<lfloor>y\<rfloor> = int k"
      by linarith
    then show ?thesis
      unfolding x_def [symmetric] cx fx by simp
  qed
qed

text \<open>The error of the aspect ratio when the shorter side \<open>k\<close> is at most one pixel below
  the proportional length, for a source wider than high and for one at least as high as
  wide.\<close>

lemma aspect_wide:
  fixes m W H k :: real
  assumes "0 < m" "0 < W" "0 < H" "100 \<le> k" "k \<le> m * H / W" "m * H / W \<le> k + 1"
  shows "\<bar>m / k - W / H\<bar> \<le> (W / H) / 100"
proof -
  define x where "x = m * H / W"
  have xpos: "0 < x"
    using assms by (simp add: x_def)
  have kx: "k \<le> x" "x \<le> k + 1"
    using assms(5,6) by (simp_all add: x_def)
  have WH: "W / H = m / x"
    using assms by (simp add: x_def field_simps)
  have kpos: "0 < k"
    using assms(4) by linarith
  have diff: "m / k - m / x = m * (x - k) / (k * x)"
    using kpos xpos by (simp add: field_simps)
  have nonneg: "0 \<le> m / k - m / x"
    unfolding diff using assms(1) kx kpos xpos by (simp add: field_simps)
  have "m * (x - k) / (k * x) \<le> m * 1 / (k * x)"
    using assms(1) kx kpos xpos by (intro divide_right_mono mult_left_mono) auto
  also have "\<dots> = (m / x) / k"
    using kpos xpos by (simp add: field_simps)
  also have "\<dots> \<le> (m / x) / 100"
    using assms(4) assms(1) xpos by (intro divide_left_mono) (auto intro: divide_nonneg_pos)
  finally have "m / k - m / x \<le> (m / x) / 100"
    unfolding diff .
  with nonneg show ?thesis
    unfolding WH by linarith
qed

lemma aspect_tall:
  fixes m W H k :: real
  assumes "0 < m" "0 < W" "0 < H" "100 \<le> k" "k \<le> m * W / H" "m * W / H \<le> k + 1"
  shows "\<bar>k / m - W / H\<bar> \<le> (W / H) / 100"
proof -
  define y where "y = m * W / H"
  define a where "a = y / m"
  define b where "b = k / m"
  have ky: "k \<le> y" "y \<le> k + 1"
    using assms(5,6) by (simp_all add: y_def)
  have e: "a = W / H"
    using assms by (simp add: a_def y_def)
  have ba: "b \<le> a"
    unfolding a_def b_def using ky(1) assms(1) by (simp add: divide_right_mono)
  have "y - k \<le> y / 100"
    using ky assms(4) by linarith
  then have "(y - k) / m \<le> (y / 100) / m"
    using assms(1) by (intro divide_right_mono) auto
  then have "a - b \<le> a / 100"
    unfolding a_def b_def by (simp add: diff_divide_distrib)
  with ba have "\<bar>b - a\<bar> \<le> a / 100"
    by linarith
  then show ?thesis
    unfolding e unfolding b_def .
qed

text \<open>
  C2, as stated, at a thin image. Under the default policy (\<^verbatim>\<open>medium\<close>, 1024 pixels) an
  image of 2000 by 30 pixels is drawn on a canvas of 1024 by 15 pixels: the exact height
  15.36 is rounded down. The aspect ratio goes from 66.67 to 68.27, a change of 2.4 per
  cent, more than the 1 per cent of the claim.
\<close>

theorem processImage_thin_image_counterexample:
  "processImage_canvas sample_browser thin_image
     = Inr (Some (\<lparr>canvas_width = 1024, canvas_height = 15,
                    drawn = [FillRect ''#FFFFFF'' 0 0 1024 15,
                             DrawImage thin_image 0 0 1024 15]\<rparr>,
                  Some (7 / 10)))
   \<and> \<not> \<bar>(1024 :: real) / 15 - 2000 / 30\<bar> \<le> (2000 / 30) / 100"
  by (simp add: processImage_canvas_def sample_browser_def getPhotoQuality_def
      PHOTO_SETTINGS_def OBJECT_PROTOTYPE_NAMES_def resize_def fl_eval thin_image_def)

text \<open>
  C2, amended. For a source whose width and height are positive (and below \<open>2 ^ 32\<close>, as
  every intrinsic size is), under a valid quality mode and with a drawing context,
  \<open>processImage\<close> draws a canvas and encodes it with the quality of the policy. When the
  longer side of the source exceeds \<open>maxWidth\<close>, the longer side of the canvas is exactly
  \<open>maxWidth\<close>; the shorter side is the proportional length rounded down, or one pixel
  less when the proportional length is a whole number and the arithmetic on doubles
  falls just below it; and the aspect ratio is within 1 per cent of the source's
  whenever the shorter side of the canvas has at least 100 pixels. Otherwise the canvas
  has the size of the source.
\<close>

theorem processImage_output_dimensions:
  assumes settings: "PHOTO_SETTINGS (getPhotoQuality (photoQuality_item env)) = Entry st"
    and ctx: "context2d env"
    and pos: "0 < source_width src" "0 < source_height src"
    and range: "source_width src < 2 ^ 32" "source_height src < 2 ^ 32"
  shows "\<exists>c. processImage_canvas env src = Inr (Some (c, Some (quality st))) \<and>
    (if maxWidth st < real (max (source_width src) (source_height src))
     then real_of_int (max (canvas_width c) (canvas_height c)) = maxWidth st
        \<and> \<lceil>maxWidth st * real (min (source_width src) (source_height src))
              / real (max (source_width src) (source_height src))\<rceil> - 1
            \<le> min (canvas_width c) (canvas_height c)
        \<and> min (canvas_width c) (canvas_height c)
            \<le> \<lfloor>maxWidth st * real (min (source_width src) (source_height src))
                 / real (max (source_width src) (source_height src))\<rfloor>
        \<and> (100 \<le> min (canvas_width c) (canvas_height c) \<longrightarrow>
             \<bar>real_of_int (canvas_width c) / real_of_int (canvas_height c)
                - real (source_width src) / real (source_height src)\<bar>
               \<le> (real (source_width src) / real (source_height src)) / 100)
     else canvas_width c = int (source_width src) \<and> canvas_height c = int (source_height src))"
proof -
  define w where "w = source_width src"
  define h where "h = source_height src"
  define m where "m = maxWidth st"
  have wh: "0 < w" "0 < h"
    using pos by (simp_all add: w_def h_def)
  have W: "0 < real w" "0 < real h"
    using wh by simp_all
  have small: "real w < 2 ^ 32" "real h < 2 ^ 32"
    using range by (simp_all add: w_def h_def)
  have "\<exists>M::nat. m = real M \<and> 0 < M \<and> M \<le> 1600"
  proof -
    from entry_maxWidth [OF settings] have "m = 1600 \<or> m = 1024 \<or> m = 800"
      by (simp add: m_def)
    then show ?thesis
    proof (elim disjE)
      assume "m = 1600"
      then show ?thesis
        by (intro exI [of _ 1600]) simp
    next
      assume "m = 1024"
      then show ?thesis
        by (intro exI [of _ 1024]) simp
    next
      assume "m = 800"
      then show ?thesis
        by (intro exI [of _ 800]) simp
    qed
  qed
  then obtain M :: nat where M: "m = real M" "0 < M" "M \<le> 1600"
    by blast
  have mpos: "0 < m" and mle: "m \<le> 1600"
    using M by simp_all
  have fm: "\<lfloor>m\<rfloor> = int M"
    using M by simp
  define c where "c =
     \<lparr>canvas_width = \<lfloor>fst (resize (Some m) (real w) (real h))\<rfloor>,
      canvas_height = \<lfloor>snd (resize (Some m) (real w) (real h))\<rfloor>,
      drawn = [FillRect ''#FFFFFF'' 0 0 \<lfloor>fst (resize (Some m) (real w) (real h))\<rfloor>
                 \<lfloor>snd (resize (Some m) (real w) (real h))\<rfloor>,
               DrawImage src 0 0 \<lfloor>fst (resize (Some m) (real w) (real h))\<rfloor>
                 \<lfloor>snd (resize (Some m) (real w) (real h))\<rfloor>]\<rparr>"
  have run: "processImage_canvas env src = Inr (Some (c, Some (quality st)))"
    using settings ctx wh
    by (simp add: processImage_canvas_def Let_def c_def w_def h_def m_def split_beta)
  have dims: "canvas_width c = \<lfloor>fst (resize (Some m) (real w) (real h))\<rfloor>"
    "canvas_height c = \<lfloor>snd (resize (Some m) (real w) (real h))\<rfloor>"
    by (simp_all add: c_def)
  have tiny: "x / 2 ^ 51 < 1 / real q"
    if "0 < x" "x \<le> m" "0 < q" "real q < 2 ^ 32" for x :: real and q :: nat
  proof -
    have "x / 2 ^ 51 \<le> 1600 / 2 ^ 51"
      using that(2) mle by (intro divide_right_mono) auto
    also have "\<dots> < 1 / 2 ^ 32"
      by simp
    also have "\<dots> < 1 / real q"
      using that(3,4) by (intro divide_strict_left_mono) auto
    finally show ?thesis .
  qed
  consider (small) "\<not> m < real (max w h)"
    | (wide) "m < real (max w h)" "h < w"
    | (tall) "m < real (max w h)" "w \<le> h"
    by linarith
  then have "if m < real (max w h)
     then real_of_int (max (canvas_width c) (canvas_height c)) = m
        \<and> \<lceil>m * real (min w h) / real (max w h)\<rceil> - 1 \<le> min (canvas_width c) (canvas_height c)
        \<and> min (canvas_width c) (canvas_height c) \<le> \<lfloor>m * real (min w h) / real (max w h)\<rfloor>
        \<and> (100 \<le> min (canvas_width c) (canvas_height c) \<longrightarrow>
             \<bar>real_of_int (canvas_width c) / real_of_int (canvas_height c) - real w / real h\<bar>
               \<le> (real w / real h) / 100)
     else canvas_width c = int w \<and> canvas_height c = int h"
  proof cases
    case small
    then have "resize (Some m) (real w) (real h) = (real w, real h)"
      by (auto simp: resize_def max_def split: if_splits)
    with small show ?thesis
      by (simp add: dims)
  next
    case wide
    then have big: "m < real w"
      by (simp add: max_def)
    define x where "x = m * real h / real w"
    define y where "y = fl (m / fl (real w / real h))"
    have r: "resize (Some m) (real w) (real h) = (m, y)"
      using big wide(2) W by (simp add: resize_def Let_def y_def)
    have cw: "canvas_width c = int M"
      by (simp add: dims r fm)
    have ch: "canvas_height c = \<lfloor>y\<rfloor>"
      by (simp add: dims r)
    have xpos: "0 < x"
      using mpos W by (simp add: x_def)
    have xm: "x \<le> m"
    proof -
      have "real h / real w \<le> 1"
        using wide(2) W by simp
      then have "m * (real h / real w) \<le> m * 1"
        using mpos by (intro mult_left_mono) auto
      then show ?thesis
        by (simp add: x_def)
    qed
    have quot: "m / (real w / real h) = x"
      using W by (simp add: x_def)
    have "\<bar>y - x\<bar> \<le> x / 2 ^ 51"
      using fl_quotient_error [of "real w / real h" m] W mpos
      unfolding y_def quot by simp
    with tiny [OF xpos xm wh(1) small(1)] have "\<bar>y - x\<bar> < 1 / real w"
      by linarith
    moreover have frac: "x = real (M * h) / real w"
      by (simp add: x_def M(1))
    ultimately have fl: "\<lceil>x\<rceil> - 1 \<le> \<lfloor>y\<rfloor>" "\<lfloor>y\<rfloor> \<le> \<lfloor>x\<rfloor>"
      using floor_near_fraction [of w y "M * h"] wh(1) by simp_all
    have "\<lfloor>x\<rfloor> \<le> \<lfloor>m\<rfloor>"
      using xm by (rule floor_mono)
    with fl(2) have le: "canvas_height c \<le> int M"
      by (simp add: ch fm)
    have mm: "max w h = w" "min w h = h"
      using wide(2) by (simp_all add: max_def min_def)
    have mn: "min (canvas_width c) (canvas_height c) = canvas_height c"
      "max (canvas_width c) (canvas_height c) = canvas_width c"
      using le cw by simp_all
    have k1: "real_of_int \<lfloor>y\<rfloor> \<le> x"
      using fl(2) by linarith
    have k2: "x \<le> real_of_int \<lfloor>y\<rfloor> + 1"
      using fl(1) by linarith
    have asp: "100 \<le> canvas_height c \<longrightarrow>
        \<bar>real_of_int (canvas_width c) / real_of_int (canvas_height c) - real w / real h\<bar>
          \<le> (real w / real h) / 100"
    proof
      assume "100 \<le> canvas_height c"
      then have "100 \<le> real_of_int \<lfloor>y\<rfloor>"
        unfolding ch by linarith
      from aspect_wide [OF mpos W this] k1 k2
      have "\<bar>m / real_of_int \<lfloor>y\<rfloor> - real w / real h\<bar> \<le> (real w / real h) / 100"
        by (simp add: x_def)
      then show "\<bar>real_of_int (canvas_width c) / real_of_int (canvas_height c) - real w / real h\<bar>
          \<le> (real w / real h) / 100"
        by (simp add: cw ch M(1))
    qed
    have "real_of_int (canvas_width c) = m"
      by (simp add: cw M(1))
    moreover have "\<lceil>m * real (min w h) / real (max w h)\<rceil> - 1 \<le> canvas_height c"
      using fl(1) by (simp add: ch mm x_def)
    moreover have "canvas_height c \<le> \<lfloor>m * real (min w h) / real (max w h)\<rfloor>"
      using fl(2) by (simp add: ch mm x_def)
    ultimately show ?thesis
      using wide(1) asp unfolding mn by simp
  next
    case tall
    then have big: "m < real h"
      by (simp add: max_def)
    define x where "x = m * real w / real h"
    define y where "y = fl (m * fl (real w / real h))"
    have r: "resize (Some m) (real w) (real h) = (y, m)"
      using big tall(2) W by (simp add: resize_def Let_def y_def)
    have ch: "canvas_height c = int M"
      by (simp add: dims r fm)
    have cw: "canvas_width c = \<lfloor>y\<rfloor>"
      by (simp add: dims r)
    have xpos: "0 < x"
      using mpos W by (simp add: x_def)
    have xm: "x \<le> m"
    proof -
      have "real w / real h \<le> 1"
        using tall(2) W by simp
      then have "m * (real w / real h) \<le> m * 1"
        using mpos by (intro mult_left_mono) auto
      then show ?thesis
        by (simp add: x_def)
    qed
    have prod: "m * (real w / real h) = x"
      by (simp add: x_def)
    have "\<bar>y - x\<bar> \<le> x / 2 ^ 51"
      using fl_product_error [of "real w / real h" m] W mpos
      unfolding y_def prod by simp
    with tiny [OF xpos xm wh(2) small(2)] have "\<bar>y - x\<bar> < 1 / real h"
      by linarith
    moreover have frac: "x = real (M * w) / real h"
      by (simp add: x_def M(1))
    ultimately have fl: "\<lceil>x\<rceil> - 1 \<le> \<lfloor>y\<rfloor>" "\<lfloor>y\<rfloor> \<le> \<lfloor>x\<rfloor>"
      using floor_near_fraction [of h y "M * w"] wh(2) by simp_all
    have "\<lfloor>x\<rfloor> \<le> \<lfloor>m\<rfloor>"
      using xm by (rule floor_mono)
    with fl(2) have le: "canvas_width c \<le> int M"
      by (simp add: cw fm)
    have mm: "max w h = h" "min w h = w"
      using tall(2) by (simp_all add: max_def min_def)
    have mn: "min (canvas_width c) (canvas_height c) = canvas_width c"
      "max (canvas_width c) (canvas_height c) = canvas_height c"
      using le ch by simp_all
    have k1: "real_of_int \<lfloor>y\<rfloor> \<le> x"
      using fl(2) by linarith
    have k2: "x \<le> real_of_int \<lfloor>y\<rfloor> + 1"
      using fl(1) by linarith
    have asp: "100 \<le> canvas_width c \<longrightarrow>
        \<bar>real_of_int (canvas_width c) / real_of_int (canvas_height c) - real w / real h\<bar>
          \<le> (real w / real h) / 100"
    proof
      assume "100 \<le> canvas_width c"
      then have "100 \<le> real_of_int \<lfloor>y\<rfloor>"
        unfolding cw by linarith
      from aspect_tall [OF mpos W this] k1 k2
      have "\<bar>real_of_int \<lfloor>y\<rfloor> / m - real w / real h\<bar> \<le> (real w / real h) / 100"
        by (simp add: x_def)
      then show "\<bar>real_of_int (canvas_width c) / real_of_int (canvas_height c) - real w / real h\<bar>
          \<le> (real w / real h) / 100"
        by (simp add: cw ch M(1))
    qed
    have "real_of_int (canvas_height c) = m"
      by (simp add: ch M(1))
    moreover have "\<lceil>m * real (min w h) / real (max w h)\<rceil> - 1 \<le> canvas_width c"
      using fl(1) by (simp add: cw mm x_def)
    moreover have "canvas_width c \<le> \<lfloor>m * real (min w h) / real (max w h)\<rfloor>"
      using fl(2) by (simp add: cw mm x_def)
    ultimately show ?thesis
      using tall(1) asp unfolding mn by simp
  qed
  with run show ?thesis
    unfolding w_def h_def m_def by blast
qed

theorem processImage_output_dimensions_witness:
  "processImage_canvas sample_browser large_image
     = Inr (Some (\<lparr>canvas_width = 1024, canvas_height = 768,
                    drawn = [FillRect ''#FFFFFF'' 0 0 1024 768,
                             DrawImage large_image 0 0 1024 768]\<rparr>,
                  Some (7 / 10)))
   \<and> processImage_canvas sample_browser whole_number_image
     = Inr (Some (\<lparr>canvas_width = 1024, canvas_height = 791,
                    drawn = [FillRect ''#FFFFFF'' 0 0 1024 791,
                             DrawImage whole_number_image 0 0 1024 791]\<rparr>,
                  Some (7 / 10)))
   \<and> processImage_canvas sample_browser small_image
     = Inr (Some (\<lparr>canvas_width = 640, canvas_height = 480,
                    drawn = [FillRect ''#FFFFFF'' 0 0 640 480,
                             DrawImage small_image 0 0 640 480]\<rparr>,
                  Some (7 / 10)))"
  using processImage_output_dimensions
      [of sample_browser "\<lparr>maxWidth = 1024, quality = 7 / 10\<rparr>" large_image]
    processImage_output_dimensions
      [of sample_browser "\<lparr>maxWidth = 1024, quality = 7 / 10\<rparr>" whole_number_image]
    processImage_output_dimensions
      [of sample_browser "\<lparr>maxWidth = 1024, quality = 7 / 10\<rparr>" small_image]
  by (simp add: processImage_canvas_def sample_browser_def getPhotoQuality_def
      PHOTO_SETTINGS_def OBJECT_PROTOTYPE_NAMES_def resize_def fl_eval large_image_def
      whole_number_image_def small_image_def)

text \<open>
  C8, as stated, at the stored value \<^verbatim>\<open>ultra\<close>. The value is returned as it is stored, not
  replaced by \<^verbatim>\<open>medium\<close>; \<^verbatim>\<open>PHOTO_SETTINGS\<close> has no entry for it, and \<open>processImage\<close> on
  an image of 640 by 480 pixels ends with the exception of reading \<^verbatim>\<open>settings.maxWidth\<close>.
\<close>

theorem getPhotoQuality_unrecognized_counterexample:
  "getPhotoQuality (Some ''ultra'') \<noteq> ''medium''
   \<and> PHOTO_SETTINGS (getPhotoQuality (Some ''ultra'')) = Undefined
   \<and> processImage ultra_browser small_image = Inl TypeError"
  by (simp add: getPhotoQuality_def PHOTO_SETTINGS_def OBJECT_PROTOTYPE_NAMES_def
      processImage_def processImage_canvas_def ultra_browser_def small_image_def)

text \<open>
  C8, amended. Reading the setting yields \<^verbatim>\<open>medium\<close> when it is unset or empty and the
  stored string itself otherwise, so \<^verbatim>\<open>medium\<close> exactly when the setting is unset, empty
  or \<^verbatim>\<open>medium\<close>. The three modes have the settings (1600, 0.8), (1024, 0.7) and
  (800, 0.6); the pipeline has a settings entry exactly when the setting is unset, empty
  or one of \<^verbatim>\<open>high\<close>, \<^verbatim>\<open>medium\<close>, \<^verbatim>\<open>low\<close>, and every entry has a positive size and a
  quality between 0 and 1.
\<close>

theorem getPhotoQuality_valid_settings:
  "getPhotoQuality None = ''medium''
   \<and> getPhotoQuality (Some '''') = ''medium''
   \<and> (\<forall>v. v \<noteq> '''' \<longrightarrow> getPhotoQuality (Some v) = v)
   \<and> (getPhotoQuality item = ''medium'' \<longleftrightarrow> item \<in> {None, Some '''', Some ''medium''})
   \<and> PHOTO_SETTINGS ''high'' = Entry \<lparr>maxWidth = 1600, quality = 8 / 10\<rparr>
   \<and> PHOTO_SETTINGS ''medium'' = Entry \<lparr>maxWidth = 1024, quality = 7 / 10\<rparr>
   \<and> PHOTO_SETTINGS ''low'' = Entry \<lparr>maxWidth = 800, quality = 6 / 10\<rparr>
   \<and> ((\<exists>st. PHOTO_SETTINGS (getPhotoQuality item) = Entry st) \<longleftrightarrow>
        item \<in> {None, Some '''', Some ''high'', Some ''medium'', Some ''low''})
   \<and> (\<forall>st. PHOTO_SETTINGS (getPhotoQuality item) = Entry st \<longrightarrow>
         maxWidth st \<in> {1600, 1024, 800} \<and> 0 < quality st \<and> quality st \<le> 1)"
  by (auto simp: getPhotoQuality_def PHOTO_SETTINGS_def split: option.splits if_splits)

theorem getPhotoQuality_valid_settings_witness:
  "getPhotoQuality None = ''medium''
   \<and> getPhotoQuality (Some ''low'') = ''low''
   \<and> getPhotoQuality (Some ''ultra'') = ''ultra''
   \<and> PHOTO_SETTINGS (getPhotoQuality None) = Entry \<lparr>maxWidth = 1024, quality = 7 / 10\<rparr>
   \<and> PHOTO_SETTINGS (getPhotoQuality (Some ''low'')) = Entry \<lparr>maxWidth = 800, quality = 6 / 10\<rparr>
   \<and> PHOTO_SETTINGS (getPhotoQuality (Some ''high'')) = Entry \<lparr>maxWidth = 1600, quality = 8 / 10\<rparr>"
  using getPhotoQuality_valid_settings [of None]
    getPhotoQuality_valid_settings [of "Some ''low''"]
    getPhotoQuality_valid_settings [of "Some ''high''"]
  by (simp add: getPhotoQuality_def PHOTO_SETTINGS_def)

section \<open>Properties of the photo handlers\<close>

text \<open>
  C3. Let the editor be open on a photo \<open>cp\<close>, with its canvas mounted, and let the photo
  at position \<open>i\<close> of the report carry the identifier of \<open>cp\<close>. Committing replaces its
  \<open>base64\<close> by the canvas encoded at quality 0.9, whatever quality mode is stored, sets
  \<open>edited\<close>, writes the caption field to \<open>caption\<close>, leaves every photo with another
  identifier as it was, and closes the editor. Closing the editor without committing
  leaves the photos of the report as they were.
\<close>

theorem saveEditorChanges_commit_and_discard:
  assumes "currentPhoto s = Some cp" "canvasRef s = Some cv" "formData_photos s = Some ps"
    "i < length ps" "photo_id (ps ! i) = photo_id cp"
  shows "(\<exists>ps'. formData_photos (saveEditorChanges env s) = Some ps' \<and> length ps' = length ps
        \<and> ps' ! i = (ps ! i)\<lparr>base64 := toDataURL env cv (Some (9 / 10)),
                              caption := Some (editCaption s), edited := Some True\<rparr>
        \<and> (\<forall>j < length ps. photo_id (ps ! j) \<noteq> photo_id cp \<longrightarrow> ps' ! j = ps ! j))
     \<and> \<not> editorOpen (saveEditorChanges env s)
     \<and> saveEditorChanges (env\<lparr>photoQuality_item := item\<rparr>) s = saveEditorChanges env s
     \<and> formData_photos (closeEditor s) = Some ps \<and> \<not> editorOpen (closeEditor s)"
  using assms by (simp add: saveEditorChanges_def closeEditor_def)

theorem saveEditorChanges_commit_and_discard_witness:
  "formData_photos (saveEditorChanges sample_browser editing_screen)
     = Some [first_photo,
             \<lparr>photo_id = ''2000'', base64 = ''data:image/jpeg;base64,B+ink'',
              caption = Some ''cracked valve'', edited = Some True\<rparr>]
   \<and> formData_photos (closeEditor editing_screen) = Some [first_photo, second_photo]"
  using saveEditorChanges_commit_and_discard
    [of editing_screen second_photo _ "[first_photo, second_photo]" 1 sample_browser]
  by (simp add: editing_screen_def openEditor_def initial_screen_def saveEditorChanges_def
      closeEditor_def first_photo_def second_photo_def sample_browser_def sample_encoder_def)







text \<open>
  C9, at two camera captures that read the same value of \<^verbatim>\<open>Date.now()\<close>. The identifier of
  a captured photo is \<^verbatim>\<open>Date.now().toString()\<close>, with no random part (the upload handler
  appends \<^verbatim>\<open>Math.random().toString()\<close>). Both captures succeed, and the report then holds
  two photos with the identifier \<^verbatim>\<open>1700000000000\<close>.
\<close>

theorem capturePhoto_same_millisecond_same_id:
  "\<not> isl (capturePhoto sample_browser 1700000000000 camera_screen)
   \<and> \<not> isl (capturePhoto sample_browser 1700000000000
              (projr (capturePhoto sample_browser 1700000000000 camera_screen)))
   \<and> map_option (map photo_id)
       (formData_photos
          (projr (capturePhoto sample_browser 1700000000000
                    (projr (capturePhoto sample_browser 1700000000000 camera_screen)))))
     = Some [''1700000000000'', ''1700000000000'']"
  by (simp add: capturePhoto_def camera_screen_def initial_screen_def processImage_def
      processImage_canvas_def sample_browser_def sample_encoder_def getPhotoQuality_def
      PHOTO_SETTINGS_def OBJECT_PROTOTYPE_NAMES_def resize_def fl_eval Number_toString.simps)

end
